theory Spec2Isabelle
  imports Main "HOL-Library.Sublist"
begin

section \<open>Python values\<close>

text \<open>
  The statements handled by \<^verbatim>\<open>main.py\<close> are \<^verbatim>\<open>Dict[str, Any]\<close>: JSON-like values.
  A float is a binary64 value \<open>m * 2 ^ e\<close> or one of the three special values; a dict is
  an association list read with \<open>map_of\<close>.
\<close>

datatype pyfloat = Fin int int | PosInf | NegInf | NaN

datatype pyval =
    PNone
  | PBool bool
  | PInt int
  | PFloat pyfloat
  | PStr string
  | PList "pyval list"
  | PDict "(string \<times> pyval) list"
  | PDatetime nat

datatype error = AttributeError | TypeError | OverflowError | ValueError | StorageError

text \<open>Truth value testing, as \<^verbatim>\<open>bool(v)\<close>, \<^verbatim>\<open>not v\<close> and \<^verbatim>\<open>a or b\<close> do it.\<close>

fun truthy :: "pyval \<Rightarrow> bool" where
  "truthy PNone = False"
| "truthy (PBool b) = b"
| "truthy (PInt n) = (n \<noteq> 0)"
| "truthy (PFloat (Fin m e)) = (m \<noteq> 0)"
| "truthy (PFloat _) = True"
| "truthy (PStr s) = (s \<noteq> [])"
| "truthy (PList xs) = (xs \<noteq> [])"
| "truthy (PDict kvs) = (kvs \<noteq> [])"
| "truthy (PDatetime _) = True"

text \<open>\<^verbatim>\<open>a or b\<close>: the first operand when it is truthy, else the second; an exception of
  the first operand wins.\<close>

definition py_or :: "error + pyval \<Rightarrow> error + pyval \<Rightarrow> error + pyval" where
  "py_or a b = (case a of Inl e \<Rightarrow> Inl e | Inr v \<Rightarrow> if truthy v then Inr v else b)"

text \<open>A document, and any value known to be a dict, is its list of items.\<close>

type_synonym doc = "(string \<times> pyval) list"

text \<open>\<^verbatim>\<open>d.get(k, default)\<close> and \<^verbatim>\<open>d.get(k)\<close> on a dict \<open>d\<close>.\<close>

definition dict_get_default :: "doc \<Rightarrow> string \<Rightarrow> pyval \<Rightarrow> pyval" where
  "dict_get_default d k dflt = (case map_of d k of None \<Rightarrow> dflt | Some v \<Rightarrow> v)"

definition dict_get :: "doc \<Rightarrow> string \<Rightarrow> pyval" where
  "dict_get d k = dict_get_default d k PNone"

text \<open>\<^verbatim>\<open>x.get(k, default)\<close> on any value: only a dict has the method; on every other
  value the attribute lookup raises AttributeError.\<close>

fun py_get :: "pyval \<Rightarrow> string \<Rightarrow> pyval \<Rightarrow> error + pyval" where
  "py_get (PDict d) k dflt = Inr (dict_get_default d k dflt)"
| "py_get _ k dflt = Inl AttributeError"

text \<open>The same on a value that may itself have raised, as in a chain
  \<^verbatim>\<open>a.get(..).get(..)\<close>.\<close>

definition get_in :: "error + pyval \<Rightarrow> string \<Rightarrow> pyval \<Rightarrow> error + pyval" where
  "get_in x k dflt = (case x of Inl e \<Rightarrow> Inl e | Inr v \<Rightarrow> py_get v k dflt)"

text \<open>\<^verbatim>\<open>d[k] = v\<close>: the item is replaced in place, a new key goes last.\<close>

fun setitem :: "doc \<Rightarrow> string \<Rightarrow> pyval \<Rightarrow> doc" where
  "setitem [] k v = [(k, v)]"
| "setitem ((k', v') # d) k v = (if k' = k then (k, v) # d else (k', v') # setitem d k v)"

text \<open>\<^verbatim>\<open>k in d\<close> for a dict \<open>d\<close>.\<close>

definition has_key :: "doc \<Rightarrow> string \<Rightarrow> bool" where
  "has_key d k = (map_of d k \<noteq> None)"

text \<open>\<^verbatim>\<open>s.split("/")[-1]\<close>: what follows the last slash (the whole string without one).\<close>

definition split_last :: "string \<Rightarrow> string" where
  "split_last s = rev (takeWhile (\<lambda>c. c \<noteq> CHR ''/'') (rev s))"

text \<open>\<^verbatim>\<open>needle in haystack\<close> on strings.\<close>

fun str_in :: "string \<Rightarrow> string \<Rightarrow> bool" where
  "str_in needle [] = (needle = [])"
| "str_in needle (c # cs) = (prefix needle (c # cs) \<or> str_in needle cs)"

text \<open>\<^verbatim>\<open>str(v)\<close>: a string is itself; the text of any other value is the builtin's
  \<open>repr\<close>, a parameter of the model.\<close>

definition py_str :: "(pyval \<Rightarrow> string) \<Rightarrow> pyval \<Rightarrow> string" where
  "py_str repr v = (case v of PStr s \<Rightarrow> s | _ \<Rightarrow> repr v)"

subsection \<open>Float arithmetic of \<^verbatim>\<open>int(round(scaled * 100))\<close>\<close>

fun bit_length :: "nat \<Rightarrow> nat" where
  "bit_length n = (if n = 0 then 0 else Suc (bit_length (n div 2)))"

declare bit_length.simps [simp del]

text \<open>\<open>n / d\<close> rounded to the nearest integer, a tie to the even one (\<open>0 < d\<close>): \<open>q\<close> is
  the quotient rounded down and \<open>r2\<close> twice the remainder.\<close>

definition nearest_even :: "int \<Rightarrow> int \<Rightarrow> int \<Rightarrow> int" where
  "nearest_even q r2 d =
     (if r2 < d then q else if d < r2 then q + 1 else if even q then q else q + 1)"

definition round_half_even :: "int \<Rightarrow> int \<Rightarrow> int" where
  "round_half_even n d = nearest_even (n div d) (2 * (n mod d)) d"

text \<open>The float of value \<open>q * 2 ^ e\<close>, an infinity when its magnitude reaches \<open>2 ^ 1024\<close>.\<close>

definition finite_or_inf :: "int \<Rightarrow> int \<Rightarrow> pyfloat" where
  "finite_or_inf q e =
     (if int (bit_length (nat \<bar>q\<bar>)) + e > 1024
      then (if 0 < q then PosInf else NegInf)
      else Fin q e)"

text \<open>\<open>p * 2 ^ e\<close> rounded to 53 significant bits, ties to even, where \<open>p\<close> has \<open>53 + k\<close>
  bits.\<close>

definition round_to_53 :: "int \<Rightarrow> int \<Rightarrow> int \<Rightarrow> pyfloat" where
  "round_to_53 k p e =
     (if k \<le> 0 then finite_or_inf p e
      else finite_or_inf (round_half_even p (2 ^ nat k)) (e + k))"

text \<open>\<^verbatim>\<open>x * 100\<close> on a float: the exact product rounded to the nearest float.\<close>

fun float_times_100 :: "pyfloat \<Rightarrow> pyfloat" where
  "float_times_100 (Fin m e) =
     round_to_53 (int (bit_length (nat \<bar>m * 100\<bar>)) - 53) (m * 100) e"
| "float_times_100 PosInf = PosInf"
| "float_times_100 NegInf = NegInf"
| "float_times_100 NaN = NaN"

text \<open>\<^verbatim>\<open>round(x)\<close> on a float: the nearest integer, ties to even; OverflowError on an
  infinity and ValueError on a NaN.\<close>

fun float_round :: "pyfloat \<Rightarrow> error + int" where
  "float_round (Fin m e) =
     Inr (if 0 \<le> e then m * 2 ^ nat e else round_half_even m (2 ^ nat (- e)))"
| "float_round PosInf = Inl OverflowError"
| "float_round NegInf = Inl OverflowError"
| "float_round NaN = Inl ValueError"

text \<open>
  \<^verbatim>\<open>isinstance(scaled, (int, float))\<close> and \<^verbatim>\<open>int(round(scaled * 100))\<close>. \<^verbatim>\<open>bool\<close> is a
  subclass of \<^verbatim>\<open>int\<close>, so \<^verbatim>\<open>True\<close> and \<^verbatim>\<open>False\<close> pass the test as 1 and 0.
\<close>

fun isinstance_int_float :: "pyval \<Rightarrow> bool" where
  "isinstance_int_float (PBool _) = True"
| "isinstance_int_float (PInt _) = True"
| "isinstance_int_float (PFloat _) = True"
| "isinstance_int_float _ = False"

fun round_times_100 :: "pyval \<Rightarrow> error + int" where
  "round_times_100 (PBool b) = Inr (if b then 100 else 0)"
| "round_times_100 (PInt n) = Inr (n * 100)"
| "round_times_100 (PFloat x) = float_round (float_times_100 x)"
| "round_times_100 _ = Inl TypeError"

section \<open>schemas.py\<close>

text \<open>The request body of the ingestion endpoint, \<^verbatim>\<open>class Statement(BaseModel)\<close>; each
  field carries the prefix \<open>st_\<close> here.\<close>

record statement =
  st_actor :: doc
  st_verb :: doc
  st_object :: doc
  st_result :: "doc option"
  st_context :: "doc option"
  st_timestamp :: "string option"
  st_stored_by :: string

text \<open>\<^verbatim>\<open>statement.model_dump()\<close>: every field is a key, an unset optional one is \<^verbatim>\<open>None\<close>.\<close>

definition model_dump :: "statement \<Rightarrow> doc" where
  "model_dump st =
     [(''actor'', PDict (st_actor st)),
      (''verb'', PDict (st_verb st)),
      (''object'', PDict (st_object st)),
      (''result'', (case st_result st of None \<Rightarrow> PNone | Some r \<Rightarrow> PDict r)),
      (''context'', (case st_context st of None \<Rightarrow> PNone | Some c \<Rightarrow> PDict c)),
      (''timestamp'', (case st_timestamp st of None \<Rightarrow> PNone | Some t \<Rightarrow> PStr t)),
      (''stored_by'', PStr (st_stored_by st))]"

section \<open>The storage port\<close>

text \<open>
  \<^verbatim>\<open>main.py\<close> reaches storage through \<^verbatim>\<open>create_document\<close>, \<^verbatim>\<open>get_documents\<close>
  and \<^verbatim>\<open>db.progress.find_one_and_update\<close>. Its functions take these operations as
  parameters, so that a property can be stated for a port that fails; the in-memory
  port below is the one that works. Its database holds the two collections of the
  derivation, \<^verbatim>\<open>statement\<close> and \<^verbatim>\<open>progress\<close>, each a list of documents in
  insertion order; any other collection is empty and stays so.
\<close>

record db =
  statement_coll :: "doc list"
  progress_coll :: "doc list"

definition collection :: "string \<Rightarrow> db \<Rightarrow> doc list" where
  "collection c s =
     (if c = ''statement'' then statement_coll s
      else if c = ''progress'' then progress_coll s
      else [])"

definition set_collection :: "string \<Rightarrow> doc list \<Rightarrow> db \<Rightarrow> db" where
  "set_collection c docs s =
     (if c = ''statement'' then s\<lparr>statement_coll := docs\<rparr>
      else if c = ''progress'' then s\<lparr>progress_coll := docs\<rparr>
      else s)"

text \<open>A filter document \<^verbatim>\<open>{k: v, ...}\<close> selects the documents that hold every \<open>v\<close>
  under its \<open>k\<close>.\<close>

definition matches :: "doc \<Rightarrow> doc \<Rightarrow> bool" where
  "matches flt d = list_all (\<lambda>(k, v). map_of d k = Some v) flt"

text \<open>Modelled from the spec: \<^verbatim>\<open>database.create_document\<close> is not among the sources.
  The spec's \<^verbatim>\<open>ingest\<close> records the raw event durably and acknowledges it: the
  document goes last in its collection, and the acknowledgement is its position.\<close>

definition create_document :: "string \<Rightarrow> doc \<Rightarrow> db \<Rightarrow> error + (pyval \<times> db)" where
  "create_document c data s =
     Inr (PInt (int (length (collection c s))), set_collection c (collection c s @ [data]) s)"

text \<open>Modelled from the spec: \<^verbatim>\<open>database.get_documents\<close> is not among the sources.
  The spec's \<^verbatim>\<open>query_progress\<close> and \<^verbatim>\<open>query_statements\<close> return all records of a
  learner: the documents of the collection that match the filter, in order.\<close>

definition get_documents :: "string \<Rightarrow> doc \<Rightarrow> db \<Rightarrow> error + doc list" where
  "get_documents c flt s = Inr (filter (matches flt) (collection c s))"

text \<open>Modelled from the spec: \<^verbatim>\<open>find_one_and_update(filter, update, upsert=True)\<close> is the
  driver's. The spec's \<^verbatim>\<open>upsert_progress\<close> is an atomic merge-or-create: the first
  document matching the filter gets the items of \<^verbatim>\<open>$set\<close>; when none matches, a new
  document is made of the filter's items, those of \<^verbatim>\<open>$set\<close> and those of
  \<^verbatim>\<open>$setOnInsert\<close>.\<close>

definition set_items :: "doc \<Rightarrow> doc \<Rightarrow> doc" where
  "set_items items d = fold (\<lambda>(k, v) d'. setitem d' k v) items d"

fun upsert_docs :: "doc \<Rightarrow> doc \<Rightarrow> doc \<Rightarrow> doc list \<Rightarrow> doc list" where
  "upsert_docs flt set_doc insert_doc [] = [set_items (set_doc @ insert_doc) flt]"
| "upsert_docs flt set_doc insert_doc (d # ds) =
     (if matches flt d then set_items set_doc d # ds
      else d # upsert_docs flt set_doc insert_doc ds)"

definition operator_items :: "doc \<Rightarrow> string \<Rightarrow> doc" where
  "operator_items upd k = (case dict_get upd k of PDict items \<Rightarrow> items | _ \<Rightarrow> [])"

definition find_one_and_update :: "string \<Rightarrow> doc \<Rightarrow> doc \<Rightarrow> db \<Rightarrow> error + db" where
  "find_one_and_update c flt upd s =
     Inr (set_collection c
            (upsert_docs flt (operator_items upd ''$set'') (operator_items upd ''$setOnInsert'')
               (collection c s)) s)"

section \<open>main.py\<close>

subsection \<open>\<^verbatim>\<open>update_progress_from_statement\<close>\<close>

text \<open>
  The helper that maintains the denormalized progress record. \<open>upsert\<close> is
  \<^verbatim>\<open>db.progress.find_one_and_update\<close>; \<open>now\<close> is the reading of the clock. First the
  score of lines 219 to 223, which may raise inside \<^verbatim>\<open>round\<close>.
\<close>

definition update_score :: "pyval \<Rightarrow> error + pyval" where
  "update_score result =
     (case result of
        PDict r \<Rightarrow>
          (case dict_get r ''score'' of
             PDict sc \<Rightarrow>
               if isinstance_int_float (dict_get sc ''scaled'')
               then (case round_times_100 (dict_get sc ''scaled'') of
                       Inl e \<Rightarrow> Inl e | Inr n \<Rightarrow> Inr (PInt n))
               else Inr PNone
           | _ \<Rightarrow> Inr PNone)
      | _ \<Rightarrow> Inr PNone)"

definition update_progress_from_statement ::
  "(doc \<Rightarrow> doc \<Rightarrow> 's \<Rightarrow> error + 's) \<Rightarrow> nat \<Rightarrow> doc \<Rightarrow> 's \<Rightarrow> error + 's" where
  "update_progress_from_statement upsert now st s =
     (let learner_id = dict_get st ''_learner_external_id'';
          course_id = dict_get st ''_course_id''
      in if \<not> truthy learner_id \<or> \<not> truthy course_id then Inr s
         else
           let result = (if truthy (dict_get st ''result'') then dict_get st ''result''
                         else PDict [])
           in case update_score result of
                Inl e \<Rightarrow> Inl e
              | Inr score \<Rightarrow>
                  let success = (case result of
                                   PDict r \<Rightarrow> if has_key r ''success''
                                              then PBool (truthy (dict_get r ''success''))
                                              else PNone
                                 | _ \<Rightarrow> PNone);
                      status = (case result of
                                  PDict r \<Rightarrow> if truthy (dict_get r ''completion'')
                                             then ''completed'' else ''in_progress''
                                | _ \<Rightarrow> ''in_progress'');
                      last_ts = dict_get st ''timestamp''
                  in upsert
                       [(''learner_external_id'', learner_id), (''course_id'', course_id)]
                       [(''$set'',
                           PDict [(''learner_external_id'', learner_id),
                                  (''course_id'', course_id),
                                  (''status'', PStr status),
                                  (''score'', score),
                                  (''success'', success),
                                  (''last_statement_timestamp'', last_ts),
                                  (''updated_at'', PDatetime now)]),
                        (''$setOnInsert'', PDict [(''created_at'', PDatetime now)])]
                       s)"

subsection \<open>\<^verbatim>\<open>record_statement\<close>\<close>

text \<open>Lines 134 to 145: the dumped statement with the server's timestamp and the two
  convenience fields. The chains of \<^verbatim>\<open>.get\<close> raise when a link is not a dict.\<close>

definition statement_data :: "nat \<Rightarrow> statement \<Rightarrow> error + doc" where
  "statement_data now statement =
     (let data = setitem (model_dump statement) ''received_at'' (PDatetime now);
          a = dict_get_default data ''actor'' (PDict [])
      in case py_or (get_in (py_get a ''account'' (PDict [])) ''name'' PNone)
                (py_or (py_get a ''mbox'' PNone) (py_get a ''openid'' PNone)) of
           Inl e \<Rightarrow> Inl e
         | Inr actor_account \<Rightarrow>
             (case py_get (dict_get_default data ''object'' (PDict [])) ''id'' PNone of
                Inl e \<Rightarrow> Inl e
              | Inr activity_id \<Rightarrow>
                  Inr (setitem (setitem data ''_learner_external_id'' actor_account)
                         ''_course_id''
                         (case activity_id of PStr i \<Rightarrow> PStr (split_last i) | _ \<Rightarrow> PNone))))"

text \<open>The endpoint: \<open>create\<close> is \<^verbatim>\<open>create_document\<close>. An exception of the progress
  update is caught and dropped by \<^verbatim>\<open>except Exception: pass\<close>; the state is then the
  one the insertion left.\<close>

definition record_statement ::
  "(string \<Rightarrow> doc \<Rightarrow> 's \<Rightarrow> error + (pyval \<times> 's)) \<Rightarrow> (doc \<Rightarrow> doc \<Rightarrow> 's \<Rightarrow> error + 's) \<Rightarrow>
   nat \<Rightarrow> statement \<Rightarrow> 's \<Rightarrow> error + (doc \<times> 's)" where
  "record_statement create upsert now statement s =
     (case statement_data now statement of
        Inl e \<Rightarrow> Inl e
      | Inr data \<Rightarrow>
          (case create ''statement'' data s of
             Inl e \<Rightarrow> Inl e
           | Inr (inserted_id, s1) \<Rightarrow>
               Inr ([(''id'', inserted_id)],
                    (case update_progress_from_statement upsert now data s1 of
                       Inl e \<Rightarrow> s1
                     | Inr s2 \<Rightarrow> s2))))"

subsection \<open>\<^verbatim>\<open>get_progress\<close>\<close>

text \<open>
  The fallback groups the statements in a Python dict \<^verbatim>\<open>computed\<close> keyed by the course
  id: a list of keys with their records, in insertion order. A key must be hashable (a
  list or a dict is not: TypeError) and is found by Python's equality, under which
  numbers of equal value are one key and a NaN equals nothing.
\<close>

fun num_val :: "pyval \<Rightarrow> (int \<times> int) option" where
  "num_val (PBool b) = Some (if b then 1 else 0, 0)"
| "num_val (PInt n) = Some (n, 0)"
| "num_val (PFloat (Fin m e)) = Some (m, e)"
| "num_val _ = None"

definition py_eq :: "pyval \<Rightarrow> pyval \<Rightarrow> bool" where
  "py_eq a b =
     (case (num_val a, num_val b) of
        (Some (m1, e1), Some (m2, e2)) \<Rightarrow>
          m1 * 2 ^ nat (e1 - min e1 e2) = m2 * 2 ^ nat (e2 - min e1 e2)
      | (None, None) \<Rightarrow> a = b \<and> a \<noteq> PFloat NaN
      | _ \<Rightarrow> False)"

fun hashable :: "pyval \<Rightarrow> bool" where
  "hashable (PList _) = False"
| "hashable (PDict _) = False"
| "hashable _ = True"

fun lookup_key :: "(pyval \<times> doc) list \<Rightarrow> pyval \<Rightarrow> doc option" where
  "lookup_key [] k = None"
| "lookup_key ((k', r) # c) k = (if py_eq k' k then Some r else lookup_key c k)"

fun store_key :: "(pyval \<times> doc) list \<Rightarrow> pyval \<Rightarrow> doc \<Rightarrow> (pyval \<times> doc) list" where
  "store_key [] k r = [(k, r)]"
| "store_key ((k', r') # c) k r =
     (if py_eq k' k then (k', r) # c else (k', r') # store_key c k r)"

text \<open>The score of lines 190 to 196.\<close>

definition fallback_score :: "pyval \<Rightarrow> error + pyval" where
  "fallback_score result =
     (case result of
        PDict r \<Rightarrow>
          (case dict_get r ''score'' of
             PDict sc \<Rightarrow>
               (let scaled = dict_get sc ''scaled''
                in if isinstance_int_float scaled
                   then (case round_times_100 scaled of
                           Inl e \<Rightarrow> Inl e | Inr n \<Rightarrow> Inr (PInt n))
                   else Inr PNone)
           | _ \<Rightarrow> Inr PNone)
      | _ \<Rightarrow> Inr PNone)"

text \<open>The body of the loop over the learner's statements, lines 185 to 206: \<open>st\<close> is the
  statement, \<open>computed\<close> the dict so far.\<close>

definition fallback_step ::
  "(pyval \<Rightarrow> string) \<Rightarrow> doc \<Rightarrow> (pyval \<times> doc) list \<Rightarrow> error + (pyval \<times> doc) list" where
  "fallback_step repr st computed =
     (case py_or (Inr (dict_get st ''_course_id''))
             (py_get (dict_get_default st ''object'' (PDict [])) ''id'' PNone) of
        Inl e \<Rightarrow> Inl e
      | Inr course_id0 \<Rightarrow>
          let course_id = (case course_id0 of
                             PStr c \<Rightarrow> if CHR ''/'' \<in> set c then PStr (split_last c)
                                       else course_id0
                           | _ \<Rightarrow> course_id0)
          in case py_or (get_in (py_get (dict_get_default st ''verb'' (PDict []))
                                   ''display'' (PDict [])) ''en-US'' PNone)
                    (py_get (dict_get_default st ''verb'' (PDict [])) ''id'' PNone) of
               Inl e \<Rightarrow> Inl e
             | Inr verb \<Rightarrow>
                 let result = (if truthy (dict_get st ''result'') then dict_get st ''result''
                               else PDict [])
                 in case fallback_score result of
                      Inl e \<Rightarrow> Inl e
                    | Inr score \<Rightarrow>
                        if \<not> hashable course_id then Inl TypeError
                        else
                          let rec0 = (case lookup_key computed course_id of
                                        Some r \<Rightarrow> r
                                      | None \<Rightarrow>
                                          [(''course_id'', course_id),
                                           (''status'', PStr ''in_progress''),
                                           (''score'', PNone),
                                           (''success'', PNone),
                                           (''last_statement_timestamp'',
                                              dict_get st ''timestamp'')]);
                              rec1 = setitem rec0 ''last_statement_timestamp''
                                       (if truthy (dict_get st ''timestamp'')
                                        then dict_get st ''timestamp''
                                        else dict_get rec0 ''last_statement_timestamp'');
                              rec2 = (if score \<noteq> PNone then setitem rec1 ''score'' score
                                      else rec1);
                              rec3 = (case result of
                                        PDict r \<Rightarrow>
                                          (let rec' = (if has_key r ''success''
                                                       then setitem rec2 ''success''
                                                              (PBool (truthy (dict_get r ''success'')))
                                                       else rec2)
                                           in if truthy (dict_get r ''completion'') \<or>
                                                 (truthy verb \<and>
                                                  str_in ''completed'' (py_str repr verb))
                                              then setitem rec' ''status'' (PStr ''completed'')
                                              else rec')
                                      | _ \<Rightarrow> rec2)
                          in Inr (store_key computed course_id rec3))"

fun fallback_loop ::
  "(pyval \<Rightarrow> string) \<Rightarrow> doc list \<Rightarrow> (pyval \<times> doc) list \<Rightarrow> error + (pyval \<times> doc) list" where
  "fallback_loop repr [] computed = Inr computed"
| "fallback_loop repr (st # statements) computed =
     (case fallback_step repr st computed of
        Inl e \<Rightarrow> Inl e
      | Inr computed' \<Rightarrow> fallback_loop repr statements computed')"

text \<open>The endpoint: \<open>query\<close> is \<^verbatim>\<open>get_documents\<close>. The stored records are preferred; the
  statements are replayed only when the learner has none.\<close>

definition get_progress ::
  "(pyval \<Rightarrow> string) \<Rightarrow> (string \<Rightarrow> doc \<Rightarrow> 's \<Rightarrow> error + doc list) \<Rightarrow> string \<Rightarrow> 's \<Rightarrow> error + doc" where
  "get_progress repr query learner_external_id s =
     (case query ''progress'' [(''learner_external_id'', PStr learner_external_id)] s of
        Inl e \<Rightarrow> Inl e
      | Inr progress_items \<Rightarrow>
          if progress_items \<noteq> []
          then Inr [(''learner_external_id'', PStr learner_external_id),
                    (''items'',
                       PList (map (\<lambda>p. PDict (setitem p ''_id''
                                                (PStr (py_str repr (dict_get p ''_id'')))))
                                progress_items))]
          else
            (case query ''statement''
                    [(''_learner_external_id'', PStr learner_external_id)] s of
               Inl e \<Rightarrow> Inl e
             | Inr statements \<Rightarrow>
                 (case fallback_loop repr statements [] of
                    Inl e \<Rightarrow> Inl e
                  | Inr computed \<Rightarrow>
                      Inr [(''learner_external_id'', PStr learner_external_id),
                           (''items'', PList (map (\<lambda>(k, r). PDict r) computed))])))"

section \<open>Scenarios\<close>

text \<open>The in-memory port on an empty database, and the ingestion endpoint called on a
  list of statements in order (the clock stands at 0: the claims leave timestamps out).\<close>

definition empty_db :: db where
  "empty_db = \<lparr>statement_coll = [], progress_coll = []\<rparr>"

fun ingest_all :: "statement list \<Rightarrow> db \<Rightarrow> error + db" where
  "ingest_all [] s = Inr s"
| "ingest_all (st # sts) s =
     (case record_statement create_document (find_one_and_update ''progress'') 0 st s of
        Inl e \<Rightarrow> Inl e
      | Inr (ack, s') \<Rightarrow> ingest_all sts s')"

text \<open>The document that \<^verbatim>\<open>record_statement\<close> stores for a statement.\<close>

definition stored :: "statement \<Rightarrow> doc" where
  "stored st = (case statement_data 0 st of Inl e \<Rightarrow> [] | Inr data \<Rightarrow> data)"

text \<open>The part of a progress record that the two derivations are compared on.\<close>

definition triple :: "doc \<Rightarrow> pyval \<times> pyval \<times> pyval" where
  "triple d = (dict_get d ''status'', dict_get d ''score'', dict_get d ''success'')"

text \<open>The three events of the spec's end-to-end scenario, for learner \<^verbatim>\<open>u1\<close> and course
  \<^verbatim>\<open>c-ethics-101\<close>; \<open>5404319552844595 * 2 ^ -53\<close> is the float \<^verbatim>\<open>0.6\<close>.\<close>

definition attempted :: statement where
  "attempted = \<lparr>st_actor = [(''account'', PDict [(''name'', PStr ''u1'')])],
          st_verb = [(''display'', PDict [(''en-US'', PStr ''attempted'')])],
          st_object = [(''id'', PStr ''http://example.com/courses/c-ethics-101'')],
          st_result = None, st_context = None, st_timestamp = None, st_stored_by = ''api''\<rparr>"

definition attempted_scored :: statement where
  "attempted_scored = attempted\<lparr>st_result := Some [(''score'', PDict [(''scaled'', PFloat (Fin 5404319552844595 (-53)))])]\<rparr>"

definition completed_passed :: statement where
  "completed_passed = attempted\<lparr>st_verb := [(''display'', PDict [(''en-US'', PStr ''completed'')])],
             st_result := Some [(''completion'', PBool True), (''success'', PBool True)]\<rparr>"

text \<open>The progress document of that learner and course.\<close>

definition progress_doc :: "string \<Rightarrow> pyval \<Rightarrow> pyval \<Rightarrow> pyval \<Rightarrow> doc" where
  "progress_doc status score success last_ts =
     [(''learner_external_id'', PStr ''u1''), (''course_id'', PStr ''c-ethics-101''),
      (''status'', PStr status), (''score'', score), (''success'', success),
      (''last_statement_timestamp'', last_ts), (''updated_at'', PDatetime 0),
      (''created_at'', PDatetime 0)]"


text \<open>Both derivations on one history: the statements are ingested one at a time on an
  empty database, then replayed by the fallback loop of \<^verbatim>\<open>get_progress\<close>; the result
  is what each path holds for the learner's courses.\<close>

definition both_paths ::
  "(pyval \<Rightarrow> string) \<Rightarrow> statement list \<Rightarrow>
   error + ((pyval \<times> pyval \<times> pyval) list \<times> (pyval \<times> pyval \<times> pyval) list)" where
  "both_paths repr events =
     (case ingest_all events empty_db of
        Inl e \<Rightarrow> Inl e
      | Inr s \<Rightarrow>
          (case fallback_loop repr (statement_coll s) [] of
             Inl e \<Rightarrow> Inl e
           | Inr computed \<Rightarrow>
               Inr (map triple (progress_coll s), map (\<lambda>(k, r). triple r) computed)))"

text \<open>An attempt with a score of \<^verbatim>\<open>0.6\<close>, an explicit failure and a client timestamp.\<close>

definition scored_failed_at :: statement where
  "scored_failed_at =
     attempted\<lparr>st_result := Some [(''score'', PDict [(''scaled'', PFloat (Fin 5404319552844595 (-53)))]),
                                  (''success'', PBool False)],
               st_timestamp := Some ''2024-05-01T10:00:00Z''\<rparr>"

text \<open>A statement whose verb says \<^verbatim>\<open>completed\<close> and that has no result.\<close>

definition completed_verb_only :: statement where
  "completed_verb_only =
     attempted\<lparr>st_verb := [(''display'', PDict [(''en-US'', PStr ''completed'')])]\<rparr>"

text \<open>Malformed statements: the actor's account is a string; the object has no id and the
  verb's display is a string; the object has no id.\<close>

definition account_is_string :: statement where
  "account_is_string = attempted\<lparr>st_actor := [(''account'', PStr ''u1'')]\<rparr>"

definition display_is_string :: statement where
  "display_is_string =
     attempted\<lparr>st_verb := [(''display'', PStr ''attempted'')], st_object := []\<rparr>"

definition no_object_id :: statement where
  "no_object_id = attempted\<lparr>st_object := []\<rparr>"

text \<open>A statement whose account name is the empty string, with a mailbox.\<close>

definition empty_account_name :: statement where
  "empty_account_name =
     attempted\<lparr>st_actor := [(''account'', PDict [(''name'', PStr [])]),
                                 (''mbox'', PStr ''mailto:u1@example.com'')]\<rparr>"

text \<open>A progress update that fails, as an unavailable store does.\<close>

definition failing_upsert :: "doc \<Rightarrow> doc \<Rightarrow> db \<Rightarrow> error + db" where
  "failing_upsert flt upd s = Inl StorageError"

section \<open>Rounding, as a relation\<close>

text \<open>\<open>s\<close> is the integer nearest to \<open>n / d\<close>, the even one on a tie (\<open>0 < d\<close>).\<close>

definition nearest_ties_even :: "int \<Rightarrow> int \<Rightarrow> int \<Rightarrow> bool" where
  "nearest_ties_even s n d =
     (\<bar>2 * (s * d - n)\<bar> < d \<or> (\<bar>2 * (s * d - n)\<bar> = d \<and> even s))"

text \<open>The claim's words, on exact values: \<open>s\<close> is an integer nearest to \<open>q * 2 ^ e\<close>
  (either neighbour on a tie).\<close>

definition spec_nearest_integer :: "int \<Rightarrow> int \<Rightarrow> int \<Rightarrow> bool" where
  "spec_nearest_integer s q e =
     (if 0 \<le> e then s = q * 2 ^ nat e else \<bar>2 * (s * 2 ^ nat (- e) - q)\<bar> \<le> 2 ^ nat (- e))"

text \<open>\<open>s\<close> is the float value \<open>q * 2 ^ e\<close> rounded to the nearest integer, ties to even.\<close>

definition value_rounds_to :: "int \<Rightarrow> int \<Rightarrow> int \<Rightarrow> bool" where
  "value_rounds_to s q e =
     (if 0 \<le> e then s = q * 2 ^ nat e else nearest_ties_even s q (2 ^ nat (- e)))"

text \<open>\<open>q * 2 ^ e'\<close> is the exact product \<open>m * 100 * 2 ^ e\<close> itself when that has at most 53
  bits, and else the product rounded to the nearest multiple of \<open>2 ^ e'\<close>, ties to even,
  where \<open>e'\<close> leaves 53 bits.\<close>

definition product_rounded :: "int \<Rightarrow> int \<Rightarrow> int \<Rightarrow> int \<Rightarrow> bool" where
  "product_rounded q e' m e =
     (if int (bit_length (nat \<bar>m * 100\<bar>)) \<le> 53 then q = m * 100 \<and> e' = e
      else e' = e + (int (bit_length (nat \<bar>m * 100\<bar>)) - 53) \<and>
           nearest_ties_even q (m * 100) (2 ^ nat (int (bit_length (nat \<bar>m * 100\<bar>)) - 53)))"

text \<open>A result that holds nothing but a scaled score.\<close>

definition scaled_result :: "pyval \<Rightarrow> pyval" where
  "scaled_result scaled = PDict [(''score'', PDict [(''scaled'', scaled)])]"

section \<open>Evaluation\<close>

text \<open>The definitions that a run on a concrete statement unfolds.\<close>

lemmas eval_defs = statement_data_def model_dump_def dict_get_default_def dict_get_def py_or_def get_in_def
  split_last_def record_statement_def create_document_def find_one_and_update_def
  update_progress_from_statement_def update_score_def has_key_def operator_items_def set_items_def matches_def
  empty_db_def collection_def set_collection_def stored_def progress_doc_def Let_def

lemmas fallback_defs = fallback_step_def fallback_score_def py_eq_def py_str_def dict_get_default_def
  dict_get_def py_or_def get_in_def has_key_def split_last_def Let_def

text \<open>\<open>bit_length\<close> on a numeral, bit by bit.\<close>

lemma bit_length_0 [simp]: "bit_length 0 = 0"
  by (simp add: bit_length.simps)

lemma bit_length_double: "0 < k \<Longrightarrow> bit_length (2 * k) = bit_length k + 1"
  by (subst bit_length.simps) simp

lemma bit_length_double_1: "bit_length (2 * k + 1) = bit_length k + 1"
  by (subst bit_length.simps) simp

lemma bit_length_Suc_0 [simp]: "bit_length (Suc 0) = Suc 0"
  using bit_length_double_1 [of 0] by simp

lemma bit_length_Bit0 [simp]: "bit_length (numeral (Num.Bit0 n)) = bit_length (numeral n) + 1"
  using bit_length_double [of "numeral n"] by (simp add: numeral_Bit0 mult_2)

lemma bit_length_Bit1 [simp]: "bit_length (numeral (Num.Bit1 n)) = bit_length (numeral n) + 1"
  using bit_length_double_1 [of "numeral n"] by (simp add: numeral_Bit1 mult_2)

lemmas float_defs = round_half_even_def nearest_even_def round_to_53_def finite_or_inf_def

text \<open>\<^verbatim>\<open>int(round(0.6 * 100))\<close> is 60.\<close>

lemma scaled_06: "round_times_100 (PFloat (Fin 5404319552844595 (-53))) = Inr 60"
  by (simp add: float_defs)

section \<open>The two derivations on one history\<close>

text \<open>The documents stored for the statements, and each step of the two paths on the
  history \<open>[completed_passed, attempted]\<close>.\<close>

lemma stored_attempted: "stored attempted =
  [(''actor'', PDict [(''account'', PDict [(''name'', PStr ''u1'')])]),
   (''verb'', PDict [(''display'', PDict [(''en-US'', PStr ''attempted'')])]),
   (''object'', PDict [(''id'', PStr ''http://example.com/courses/c-ethics-101'')]),
   (''result'', PNone), (''context'', PNone), (''timestamp'', PNone), (''stored_by'', PStr ''api''),
   (''received_at'', PDatetime 0), (''_learner_external_id'', PStr ''u1''), (''_course_id'', PStr ''c-ethics-101'')]"
  by (simp add: eval_defs attempted_def)

lemma stored_completed_passed: "stored completed_passed =
  [(''actor'', PDict [(''account'', PDict [(''name'', PStr ''u1'')])]),
   (''verb'', PDict [(''display'', PDict [(''en-US'', PStr ''completed'')])]),
   (''object'', PDict [(''id'', PStr ''http://example.com/courses/c-ethics-101'')]),
   (''result'', PDict [(''completion'', PBool True), (''success'', PBool True)]),
   (''context'', PNone), (''timestamp'', PNone), (''stored_by'', PStr ''api''),
   (''received_at'', PDatetime 0), (''_learner_external_id'', PStr ''u1''), (''_course_id'', PStr ''c-ethics-101'')]"
  by (simp add: eval_defs attempted_def completed_passed_def)

lemma first_completed: "record_statement create_document (find_one_and_update ''progress'') 0 completed_passed empty_db =
   Inr ([(''id'', PInt 0)], \<lparr>statement_coll = [stored completed_passed],
        progress_coll = [progress_doc ''completed'' PNone (PBool True) PNone]\<rparr>)"
  by (simp add: eval_defs attempted_def completed_passed_def)

lemma then_attempted: "record_statement create_document (find_one_and_update ''progress'') 0 attempted
     \<lparr>statement_coll = [stored completed_passed], progress_coll = [progress_doc ''completed'' PNone (PBool True) PNone]\<rparr> =
   Inr ([(''id'', PInt 1)], \<lparr>statement_coll = [stored completed_passed, stored attempted],
        progress_coll = [progress_doc ''in_progress'' PNone PNone PNone]\<rparr>)"
  by (simp add: eval_defs attempted_def completed_passed_def)

lemma replay_completed: "fallback_step repr (stored completed_passed) [] =
   Inr [(PStr ''c-ethics-101'', [(''course_id'', PStr ''c-ethics-101''), (''status'', PStr ''completed''),
       (''score'', PNone), (''success'', PBool True), (''last_statement_timestamp'', PNone)])]"
  by (simp add: stored_completed_passed fallback_defs)

lemma replay_then_attempted: "fallback_step repr (stored attempted)
     [(PStr ''c-ethics-101'', [(''course_id'', PStr ''c-ethics-101''), (''status'', PStr ''completed''),
       (''score'', PNone), (''success'', PBool True), (''last_statement_timestamp'', PNone)])] =
   Inr [(PStr ''c-ethics-101'', [(''course_id'', PStr ''c-ethics-101''), (''status'', PStr ''completed''),
       (''score'', PNone), (''success'', PBool True), (''last_statement_timestamp'', PNone)])]"
  by (simp add: stored_attempted fallback_defs)

lemma ingest_completed_attempted:
  "ingest_all [completed_passed, attempted] empty_db =
     Inr \<lparr>statement_coll = [stored completed_passed, stored attempted],
          progress_coll = [progress_doc ''in_progress'' PNone PNone PNone]\<rparr>"
  by (simp add: first_completed then_attempted)

lemma replay_completed_attempted:
  "fallback_loop repr [stored completed_passed, stored attempted] [] =
     Inr [(PStr ''c-ethics-101'', [(''course_id'', PStr ''c-ethics-101''), (''status'', PStr ''completed''),
       (''score'', PNone), (''success'', PBool True), (''last_statement_timestamp'', PNone)])]"
  by (simp add: replay_completed replay_then_attempted)

lemmas triple_defs = triple_def progress_doc_def dict_get_def dict_get_default_def

text \<open>
  Claim C1: for every sequence of events of one learner and course, processing them one
  at a time through \<^verbatim>\<open>update_progress_from_statement\<close> and replaying them in the same
  order through the fallback loop of \<^verbatim>\<open>get_progress\<close> give the same status, score and
  success. The code does not: on a completing statement followed by a plain attempt, the
  stored record is back to \<^verbatim>\<open>in_progress\<close> with no success, while the replay
  keeps \<^verbatim>\<open>completed\<close> and the success.
\<close>

theorem C1_paths_disagree:
  "both_paths repr [completed_passed, attempted] =
     Inr ([(PStr ''in_progress'', PNone, PNone)], [(PStr ''completed'', PNone, PBool True)])"
  unfolding both_paths_def ingest_completed_attempted
  by (simp add: replay_completed_attempted triple_defs del: fallback_loop.simps)

section \<open>What the incremental update does to a record\<close>

text \<open>The spec's end-to-end scenario, step by step.\<close>

lemma first_attempted: "record_statement create_document (find_one_and_update ''progress'') 0 attempted empty_db =
   Inr ([(''id'', PInt 0)], \<lparr>statement_coll = [stored attempted], progress_coll = [progress_doc ''in_progress'' PNone PNone PNone]\<rparr>)"
  by (simp add: eval_defs attempted_def)

lemma then_scored: "record_statement create_document (find_one_and_update ''progress'') 0 attempted_scored
     \<lparr>statement_coll = [stored attempted], progress_coll = [progress_doc ''in_progress'' PNone PNone PNone]\<rparr> =
   Inr ([(''id'', PInt 1)], \<lparr>statement_coll = [stored attempted, stored attempted_scored],
        progress_coll = [progress_doc ''in_progress'' (PInt 60) PNone PNone]\<rparr>)"
  by (simp add: eval_defs attempted_def attempted_scored_def scaled_06 del: round_times_100.simps)

lemma then_completed: "record_statement create_document (find_one_and_update ''progress'') 0 completed_passed
     \<lparr>statement_coll = [stored attempted, stored attempted_scored], progress_coll = [progress_doc ''in_progress'' (PInt 60) PNone PNone]\<rparr> =
   Inr ([(''id'', PInt 2)], \<lparr>statement_coll = [stored attempted, stored attempted_scored, stored completed_passed],
        progress_coll = [progress_doc ''completed'' PNone (PBool True) PNone]\<rparr>)"
  by (simp add: eval_defs attempted_def attempted_scored_def completed_passed_def)

lemma ingest_scenario:
  "ingest_all [attempted, attempted_scored, completed_passed] empty_db =
     Inr \<lparr>statement_coll = [stored attempted, stored attempted_scored, stored completed_passed],
          progress_coll = [progress_doc ''completed'' PNone (PBool True) PNone]\<rparr>"
  by (simp add: first_attempted then_scored then_completed)

text \<open>
  Claim C4: ingesting, for learner \<^verbatim>\<open>u1\<close> and course \<^verbatim>\<open>c-ethics-101\<close>, an attempt
  with no result, an attempt with \<^verbatim>\<open>result.score.scaled = 0.6\<close> and a completion with
  \<^verbatim>\<open>result.completion\<close> and \<^verbatim>\<open>result.success\<close> true gives a final record with status
  \<^verbatim>\<open>completed\<close>, score 60 and success true. On the code the final record has status
  \<^verbatim>\<open>completed\<close> and success true, but no score: the third statement carries none, and
  the update sets the score of the record to \<^verbatim>\<open>None\<close>.
\<close>

theorem C4_scenario_loses_score:
  "map_sum id (\<lambda>s. map triple (progress_coll s))
     (ingest_all [attempted, attempted_scored, completed_passed] empty_db) =
   Inr [(PStr ''completed'', PNone, PBool True)]"
  unfolding ingest_scenario by (simp add: triple_defs)

lemma ingest_completed: "ingest_all [completed_passed] empty_db =
     Inr \<lparr>statement_coll = [stored completed_passed],
          progress_coll = [progress_doc ''completed'' PNone (PBool True) PNone]\<rparr>"
  by (simp add: first_completed)

text \<open>
  Claim C3: once a record is \<^verbatim>\<open>completed\<close>, merging a later event never changes its
  status back to \<^verbatim>\<open>in_progress\<close>. On the code a completing statement leaves the record
  \<^verbatim>\<open>completed\<close>, and a plain attempt ingested after it sets the status to
  \<^verbatim>\<open>in_progress\<close>.
\<close>

theorem C3_status_regresses:
  "map_sum id (\<lambda>s. map (\<lambda>d. dict_get d ''status'') (progress_coll s))
     (ingest_all [completed_passed] empty_db) = Inr [PStr ''completed''] \<and>
   map_sum id (\<lambda>s. map (\<lambda>d. dict_get d ''status'') (progress_coll s))
     (ingest_all [completed_passed, attempted] empty_db) = Inr [PStr ''in_progress'']"
  unfolding ingest_completed ingest_completed_attempted by (simp add: triple_defs)

lemma first_scored_failed: "record_statement create_document (find_one_and_update ''progress'') 0 scored_failed_at empty_db =
   Inr ([(''id'', PInt 0)], \<lparr>statement_coll = [stored scored_failed_at],
        progress_coll = [progress_doc ''in_progress'' (PInt 60) (PBool False) (PStr ''2024-05-01T10:00:00Z'')]\<rparr>)"
  by (simp add: eval_defs attempted_def scored_failed_at_def scaled_06 del: round_times_100.simps)

lemma scored_failed_then_attempted: "record_statement create_document (find_one_and_update ''progress'') 0 attempted
     \<lparr>statement_coll = [stored scored_failed_at],
        progress_coll = [progress_doc ''in_progress'' (PInt 60) (PBool False) (PStr ''2024-05-01T10:00:00Z'')]\<rparr> =
   Inr ([(''id'', PInt 1)], \<lparr>statement_coll = [stored scored_failed_at, stored attempted],
        progress_coll = [progress_doc ''in_progress'' PNone PNone PNone]\<rparr>)"
  by (simp add: eval_defs attempted_def scored_failed_at_def)

lemma ingest_scored_failed: "ingest_all [scored_failed_at] empty_db =
     Inr \<lparr>statement_coll = [stored scored_failed_at],
        progress_coll = [progress_doc ''in_progress'' (PInt 60) (PBool False) (PStr ''2024-05-01T10:00:00Z'')]\<rparr>"
  by (simp add: first_scored_failed)

lemma ingest_scored_failed_attempted: "ingest_all [scored_failed_at, attempted] empty_db =
     Inr \<lparr>statement_coll = [stored scored_failed_at, stored attempted],
        progress_coll = [progress_doc ''in_progress'' PNone PNone PNone]\<rparr>"
  by (simp add: first_scored_failed scored_failed_then_attempted)

text \<open>
  Claim C2: the incremental merge leaves the score unchanged when the event carries no
  score, the success unchanged when the result has no \<^verbatim>\<open>success\<close> key, and the last
  timestamp unchanged when the event has no timestamp. On the code a record holding score
  60, success false and a timestamp loses all three when a statement with no result and
  no timestamp is ingested.
\<close>

theorem C2_fields_overwritten:
  "map_sum id progress_coll (ingest_all [scored_failed_at] empty_db) =
     Inr [progress_doc ''in_progress'' (PInt 60) (PBool False) (PStr ''2024-05-01T10:00:00Z'')] \<and>
   map_sum id progress_coll (ingest_all [scored_failed_at, attempted] empty_db) =
     Inr [progress_doc ''in_progress'' PNone PNone PNone]"
  unfolding ingest_scored_failed ingest_scored_failed_attempted by simp

section \<open>The verb, malformed statements and absent course ids\<close>

lemma stored_completed_verb_only: "stored completed_verb_only =
  [(''actor'', PDict [(''account'', PDict [(''name'', PStr ''u1'')])]),
   (''verb'', PDict [(''display'', PDict [(''en-US'', PStr ''completed'')])]),
   (''object'', PDict [(''id'', PStr ''http://example.com/courses/c-ethics-101'')]),
   (''result'', PNone), (''context'', PNone), (''timestamp'', PNone), (''stored_by'', PStr ''api''),
   (''received_at'', PDatetime 0), (''_learner_external_id'', PStr ''u1''), (''_course_id'', PStr ''c-ethics-101'')]"
  by (simp add: eval_defs attempted_def completed_verb_only_def)

lemma ingest_completed_verb_only: "ingest_all [completed_verb_only] empty_db =
     Inr \<lparr>statement_coll = [stored completed_verb_only],
        progress_coll = [progress_doc ''in_progress'' PNone PNone PNone]\<rparr>"
  by (simp add: eval_defs attempted_def completed_verb_only_def)

lemma replay_completed_verb_only: "fallback_loop repr [stored completed_verb_only] [] =
   Inr [(PStr ''c-ethics-101'', [(''course_id'', PStr ''c-ethics-101''), (''status'', PStr ''completed''),
       (''score'', PNone), (''success'', PNone), (''last_statement_timestamp'', PNone)])]"
  by (simp add: stored_completed_verb_only fallback_defs)

text \<open>
  Claim C5: in both derivations the completed signal is true iff the result has a truthy
  \<^verbatim>\<open>completion\<close> or the verb's display text (else its id) contains \<^verbatim>\<open>completed\<close>. The
  fallback loop does so; \<^verbatim>\<open>update_progress_from_statement\<close> never reads the verb: for
  a statement whose verb says \<^verbatim>\<open>completed\<close> and that has no result, the stored record
  is \<^verbatim>\<open>in_progress\<close> and the replayed one \<^verbatim>\<open>completed\<close>.
\<close>

theorem C5_verb_ignored_incrementally:
  "both_paths repr [completed_verb_only] =
     Inr ([(PStr ''in_progress'', PNone, PNone)], [(PStr ''completed'', PNone, PNone)])"
  unfolding both_paths_def ingest_completed_verb_only
  by (simp add: replay_completed_verb_only triple_defs del: fallback_loop.simps)

lemma stored_display_is_string: "stored display_is_string =
  [(''actor'', PDict [(''account'', PDict [(''name'', PStr ''u1'')])]),
   (''verb'', PDict [(''display'', PStr ''attempted'')]),
   (''object'', PDict []),
   (''result'', PNone), (''context'', PNone), (''timestamp'', PNone), (''stored_by'', PStr ''api''),
   (''received_at'', PDatetime 0), (''_learner_external_id'', PStr ''u1''), (''_course_id'', PNone)]"
  by (simp add: eval_defs attempted_def display_is_string_def)

lemma ingest_display_is_string: "ingest_all [display_is_string] empty_db =
     Inr \<lparr>statement_coll = [stored display_is_string], progress_coll = []\<rparr>"
  by (simp add: eval_defs attempted_def display_is_string_def)

text \<open>
  Claim C6: for any missing or mistyped nested field, the extraction never raises. On
  the code the chains \<^verbatim>\<open>.get("account", {}).get("name")\<close> of \<^verbatim>\<open>record_statement\<close> and
  \<^verbatim>\<open>.get("display", {}).get("en-US")\<close> of \<^verbatim>\<open>get_progress\<close> guard against a missing
  key only: when the actor's account is a string the endpoint raises AttributeError
  (whatever the storage), and a stored statement whose verb's display is a string makes the
  fallback of \<^verbatim>\<open>get_progress\<close> raise.
\<close>

theorem C6_extraction_raises:
  "record_statement create upsert now account_is_string s = Inl AttributeError \<and>
   ingest_all [display_is_string] empty_db =
     Inr \<lparr>statement_coll = [stored display_is_string], progress_coll = []\<rparr> \<and>
   get_progress repr get_documents ''u1''
     \<lparr>statement_coll = [stored display_is_string], progress_coll = []\<rparr> = Inl AttributeError"
proof -
  have "record_statement create upsert now account_is_string s = Inl AttributeError"
    by (simp add: record_statement_def statement_data_def model_dump_def dict_get_default_def
          py_or_def get_in_def account_is_string_def attempted_def)
  moreover have "get_progress repr get_documents ''u1''
     \<lparr>statement_coll = [stored display_is_string], progress_coll = []\<rparr> = Inl AttributeError"
    by (simp add: get_progress_def get_documents_def collection_def matches_def
          stored_display_is_string fallback_defs)
  ultimately show ?thesis
    using ingest_display_is_string by simp
qed

lemma stored_no_object_id: "stored no_object_id =
  [(''actor'', PDict [(''account'', PDict [(''name'', PStr ''u1'')])]),
   (''verb'', PDict [(''display'', PDict [(''en-US'', PStr ''attempted'')])]),
   (''object'', PDict []),
   (''result'', PNone), (''context'', PNone), (''timestamp'', PNone), (''stored_by'', PStr ''api''),
   (''received_at'', PDatetime 0), (''_learner_external_id'', PStr ''u1''), (''_course_id'', PNone)]"
  by (simp add: eval_defs attempted_def no_object_id_def)

lemma ingest_no_object_id: "ingest_all [no_object_id] empty_db =
     Inr \<lparr>statement_coll = [stored no_object_id], progress_coll = []\<rparr>"
  by (simp add: eval_defs attempted_def no_object_id_def)

text \<open>
  Claim C7: in the fallback of \<^verbatim>\<open>get_progress\<close>, an event with no derivable course id
  is left out of every group, so no returned record has an absent course id. On the code
  a statement whose object has no id is stored with \<^verbatim>\<open>_course_id = None\<close>; the progress
  update skips it, and the fallback then groups it under the key \<^verbatim>\<open>None\<close> and returns
  a record whose course id is \<^verbatim>\<open>None\<close>.
\<close>

theorem C7_absent_course_grouped:
  "ingest_all [no_object_id] empty_db =
     Inr \<lparr>statement_coll = [stored no_object_id], progress_coll = []\<rparr> \<and>
   get_progress repr get_documents ''u1''
     \<lparr>statement_coll = [stored no_object_id], progress_coll = []\<rparr> =
     Inr [(''learner_external_id'', PStr ''u1''),
          (''items'', PList [PDict [(''course_id'', PNone), (''status'', PStr ''in_progress''),
             (''score'', PNone), (''success'', PNone), (''last_statement_timestamp'', PNone)]])]"
proof -
  have "get_progress repr get_documents ''u1''
     \<lparr>statement_coll = [stored no_object_id], progress_coll = []\<rparr> =
     Inr [(''learner_external_id'', PStr ''u1''),
          (''items'', PList [PDict [(''course_id'', PNone), (''status'', PStr ''in_progress''),
             (''score'', PNone), (''success'', PNone), (''last_statement_timestamp'', PNone)]])]"
    by (simp add: get_progress_def get_documents_def collection_def matches_def
          stored_no_object_id fallback_defs)
  then show ?thesis
    using ingest_no_object_id by simp
qed

section \<open>Properties of the ingestion endpoint\<close>

lemma map_of_setitem: "map_of (setitem d k v) k' = (if k' = k then Some v else map_of d k')"
  by (induction d) auto

lemma dict_get_setitem: "dict_get (setitem d k v) k' = (if k' = k then v else dict_get d k')"
  by (simp add: dict_get_def dict_get_default_def map_of_setitem)

text \<open>
  Claim C9: when the statement's fields are derived and the statement is inserted, and the
  progress update then raises any exception, \<^verbatim>\<open>record_statement\<close> still returns the
  inserted id, and the database is the one the insertion left: the statement is stored
  before the update is attempted, and the failure is not surfaced. This holds for every
  storage port.
\<close>

theorem C9_progress_failure_swallowed:
  assumes "statement_data now st = Inr data"
    and "create ''statement'' data s = Inr (inserted_id, s1)"
    and "update_progress_from_statement upsert now data s1 = Inl e"
  shows "record_statement create upsert now st s = Inr ([(''id'', inserted_id)], s1)"
  using assms by (simp add: record_statement_def)

text \<open>The witness: the port's upsert fails, the statement is stored and acknowledged.\<close>

lemma failing_update:
  "update_progress_from_statement failing_upsert 0 (stored attempted)
     \<lparr>statement_coll = [stored attempted], progress_coll = []\<rparr> = Inl StorageError"
  by (simp add: stored_attempted update_progress_from_statement_def update_score_def
        dict_get_def dict_get_default_def failing_upsert_def Let_def)

theorem C9_progress_failure_swallowed_witness:
  "record_statement create_document failing_upsert 0 attempted empty_db =
     Inr ([(''id'', PInt 0)], \<lparr>statement_coll = [stored attempted], progress_coll = []\<rparr>)"
proof -
  have h1: "statement_data 0 attempted = Inr (stored attempted)"
    by (simp add: eval_defs attempted_def)
  have h2: "create_document ''statement'' (stored attempted) empty_db =
      Inr (PInt 0, \<lparr>statement_coll = [stored attempted], progress_coll = []\<rparr>)"
    by (simp add: create_document_def collection_def set_collection_def empty_db_def)
  show ?thesis
    using h1 h2 failing_update
      C9_progress_failure_swallowed [where create = create_document and upsert = failing_upsert
        and now = 0 and st = attempted and data = "stored attempted" and s = empty_db
        and inserted_id = "PInt 0"
        and ?s1.0 = "\<lparr>statement_coll = [stored attempted], progress_coll = []\<rparr>"
        and e = StorageError]
    by blast
qed

text \<open>
  Claim C10: identifiers are tested by truthiness. When the actor's account holds no
  truthy name (the empty string, say), the learner id is the mailbox when that is truthy
  and the OpenID otherwise; and a statement whose learner id or course id is falsy leaves
  the store untouched: the update returns without calling the port.
\<close>

theorem C10_falsy_identifiers:
  "(map_of (st_actor st) ''account'' = Some (PDict acc) \<and> \<not> truthy (dict_get acc ''name'') \<longrightarrow>
      map_sum id (\<lambda>data. dict_get data ''_learner_external_id'') (statement_data now st) =
        Inr (if truthy (dict_get (st_actor st) ''mbox'') then dict_get (st_actor st) ''mbox''
             else dict_get (st_actor st) ''openid'')) \<and>
   (\<not> truthy (dict_get d ''_learner_external_id'') \<or> \<not> truthy (dict_get d ''_course_id'') \<longrightarrow>
      update_progress_from_statement upsert now' d s = Inr s)"
proof (intro conjI impI)
  assume a: "map_of (st_actor st) ''account'' = Some (PDict acc) \<and> \<not> truthy (dict_get acc ''name'')"
  then show "map_sum id (\<lambda>data. dict_get data ''_learner_external_id'') (statement_data now st) =
        Inr (if truthy (dict_get (st_actor st) ''mbox'') then dict_get (st_actor st) ''mbox''
             else dict_get (st_actor st) ''openid'')"
    by (simp add: statement_data_def model_dump_def dict_get_default_def dict_get_def py_or_def
          get_in_def)
next
  assume "\<not> truthy (dict_get d ''_learner_external_id'') \<or> \<not> truthy (dict_get d ''_course_id'')"
  then show "update_progress_from_statement upsert now' d s = Inr s"
    by (auto simp: update_progress_from_statement_def Let_def)
qed

theorem C10_falsy_identifiers_witness:
  "map_sum id (\<lambda>data. dict_get data ''_learner_external_id'') (statement_data 0 empty_account_name) =
     Inr (PStr ''mailto:u1@example.com'') \<and>
   update_progress_from_statement failing_upsert 0 (stored no_object_id) empty_db = Inr empty_db"
  using C10_falsy_identifiers [where st = empty_account_name and acc = "[(''name'', PStr [])]"
      and now = 0 and d = "stored no_object_id" and upsert = failing_upsert and now' = 0
      and s = empty_db]
  by (simp add: empty_account_name_def attempted_def dict_get_def dict_get_default_def
        eval_defs no_object_id_def)

section \<open>The score computed by both derivations\<close>

lemma fallback_score_eq: "fallback_score result = update_score result"
  by (simp add: fallback_score_def update_score_def Let_def split: pyval.split)

text \<open>\<^verbatim>\<open>int(round(0.85 * 100))\<close> is 85 and \<^verbatim>\<open>int(round(1.0 * 100))\<close> is 100; an integer
  is multiplied exactly, and \<^verbatim>\<open>True\<close> counts as 1.\<close>

lemma scaled_085: "round_times_100 (PFloat (Fin 7656119366529843 (-53))) = Inr 85"
  by (simp add: float_defs)

lemma scaled_1: "round_times_100 (PFloat (Fin 1 0)) = Inr 100"
  by (simp add: float_defs)

lemma scaled_true:
  "update_score (PDict [(''score'', PDict [(''scaled'', PBool True)])]) = Inr (PInt 100)"
  by (simp add: update_score_def dict_get_def dict_get_default_def)

text \<open>What the arithmetic of \<^verbatim>\<open>int(round(scaled * 100))\<close> computes: \<open>round_half_even\<close>
  gives the nearest integer, the even one on a tie; \<open>bit_length\<close> is the number of bits.\<close>

lemma round_half_even_nearest:
  assumes "0 < d"
  shows "nearest_ties_even (round_half_even n d) n d"
proof -
  define q where "q = n div d"
  define r where "r = n mod d"
  have n: "n = q * d + r"
    by (simp add: q_def r_def)
  have r: "0 \<le> r" "r < d"
    using assms by (simp_all add: r_def)
  have "q * d - n = - r" and "(q + 1) * d - n = d - r"
    by (simp_all add: n algebra_simps)
  then have below: "\<bar>2 * (q * d - n)\<bar> = 2 * r"
    and above: "\<bar>2 * ((q + 1) * d - n)\<bar> = 2 * (d - r)"
    using r by simp_all
  have rhe: "round_half_even n d =
      (if 2 * r < d then q else if d < 2 * r then q + 1 else if even q then q else q + 1)"
    by (simp add: round_half_even_def nearest_even_def q_def r_def)
  consider "2 * r < d" | "d < 2 * r" | "2 * r = d" "even q" | "2 * r = d" "odd q"
    by linarith
  then show ?thesis
  proof cases
    case 1
    have "nearest_ties_even q n d"
      unfolding nearest_ties_even_def below using 1 by simp
    with 1 show ?thesis by (simp add: rhe)
  next
    case 2
    have "nearest_ties_even (q + 1) n d"
      unfolding nearest_ties_even_def above using 2 r by simp
    with 2 show ?thesis by (simp add: rhe)
  next
    case 3
    have "nearest_ties_even q n d"
      unfolding nearest_ties_even_def below using 3 by simp
    with 3 show ?thesis by (simp add: rhe)
  next
    case 4
    have "nearest_ties_even (q + 1) n d"
      unfolding nearest_ties_even_def above using 4 by simp
    with 4 show ?thesis by (simp add: rhe)
  qed
qed

lemma float_round_nearest:
  "float_round (Fin q e) = Inr s \<Longrightarrow> value_rounds_to s q e"
  by (auto simp: value_rounds_to_def round_half_even_nearest)

lemma finite_or_inf_Fin: "finite_or_inf q0 e0 = Fin q e \<Longrightarrow> q = q0 \<and> e = e0"
  by (auto simp: finite_or_inf_def split: if_splits)

lemma float_times_100_rounded:
  "float_times_100 (Fin m e) = Fin q e' \<Longrightarrow> product_rounded q e' m e"
  by (auto simp: product_rounded_def round_to_53_def round_half_even_nearest
        dest!: finite_or_inf_Fin split: if_splits)

lemma bit_length_bounds: "0 < n \<Longrightarrow> 2 ^ (bit_length n - 1) \<le> n \<and> n < 2 ^ bit_length n"
proof (induction n rule: bit_length.induct)
  case (1 n)
  show ?case
  proof (cases "n div 2 = 0")
    case True
    with "1.prems" have "n = 1" by presburger
    then show ?thesis by simp
  next
    case False
    then have pos: "0 < n div 2" by simp
    from "1.prems" have n0: "n \<noteq> 0" by simp
    from "1.IH" [OF n0 pos]
    have lo: "2 ^ (bit_length (n div 2) - 1) \<le> n div 2"
      and hi: "n div 2 < 2 ^ bit_length (n div 2)" by simp_all
    have b: "bit_length n = Suc (bit_length (n div 2))"
      using n0 by (subst bit_length.simps) simp
    have b1: "0 < bit_length (n div 2)"
      using pos by (subst bit_length.simps) simp
    then have p: "(2::nat) ^ bit_length (n div 2) = 2 * 2 ^ (bit_length (n div 2) - 1)"
      by (cases "bit_length (n div 2)") simp_all
    have "2 ^ bit_length (n div 2) \<le> n"
      using lo p by presburger
    moreover have "n < 2 * 2 ^ bit_length (n div 2)"
      using hi by presburger
    ultimately show ?thesis
      by (simp add: b)
  qed
qed

lemma scaled_085_product:
  "float_times_100 (Fin 7656119366529843 (-53)) = Fin 5981343255101440 (-46)"
  by (simp add: float_defs)

lemma scaled_nan: "update_score (scaled_result (PFloat NaN)) = Inl ValueError"
  by (simp add: update_score_def scaled_result_def dict_get_def dict_get_default_def)

text \<open>
  Claim C8, as amended: both derivations compute the same score, from the \<^verbatim>\<open>scaled\<close> of
  the result's \<^verbatim>\<open>score\<close> when that is a dict. An integer \<open>n\<close> gives \<open>100 * n\<close>. A finite
  float whose float product with 100 is finite gives that product (the exact product
  rounded to 53 bits, ties to even) rounded to the nearest integer, ties to even. When
  \<^verbatim>\<open>scaled\<close> is absent, \<^verbatim>\<open>None\<close>, a string, a list, a dict or a date, or when
  \<^verbatim>\<open>score\<close> is no dict, the score is absent. Booleans and floats that are not finite
  are left out.
\<close>

theorem C8_score_of_scaled:
  "fallback_score result = update_score result \<and>
   (dict_get r ''score'' = PDict sc \<and> dict_get sc ''scaled'' = PInt n \<longrightarrow>
      update_score (PDict r) = Inr (PInt (n * 100))) \<and>
   (dict_get r ''score'' = PDict sc \<and> dict_get sc ''scaled'' = PFloat (Fin m e) \<and>
    float_times_100 (Fin m e) = Fin q e' \<longrightarrow>
      product_rounded q e' m e \<and>
      (\<exists>s. update_score (PDict r) = Inr (PInt s) \<and> value_rounds_to s q e')) \<and>
   (dict_get r ''score'' = PDict sc \<and>
    dict_get sc ''scaled'' \<in> {PNone} \<union> range PStr \<union> range PList \<union> range PDict \<union> range PDatetime \<longrightarrow>
      update_score (PDict r) = Inr PNone) \<and>
   ((\<forall>sc'. dict_get r ''score'' \<noteq> PDict sc') \<longrightarrow> update_score (PDict r) = Inr PNone)"
proof (intro conjI impI)
  show "fallback_score result = update_score result"
    by (rule fallback_score_eq)
next
  assume "dict_get r ''score'' = PDict sc \<and> dict_get sc ''scaled'' = PInt n"
  then show "update_score (PDict r) = Inr (PInt (n * 100))"
    by (simp add: update_score_def)
next
  assume a: "dict_get r ''score'' = PDict sc \<and> dict_get sc ''scaled'' = PFloat (Fin m e) \<and>
    float_times_100 (Fin m e) = Fin q e'"
  then show "product_rounded q e' m e"
    by (simp add: float_times_100_rounded)
  from a obtain s where s: "float_round (Fin q e') = Inr s"
    by simp
  with a have "update_score (PDict r) = Inr (PInt s)"
    by (simp add: update_score_def)
  moreover from s have "value_rounds_to s q e'"
    by (rule float_round_nearest)
  ultimately show "\<exists>s. update_score (PDict r) = Inr (PInt s) \<and> value_rounds_to s q e'"
    by blast
next
  assume "dict_get r ''score'' = PDict sc \<and>
    dict_get sc ''scaled'' \<in> {PNone} \<union> range PStr \<union> range PList \<union> range PDict \<union> range PDatetime"
  then show "update_score (PDict r) = Inr PNone"
    by (auto simp: update_score_def)
next
  assume "\<forall>sc'. dict_get r ''score'' \<noteq> PDict sc'"
  then show "update_score (PDict r) = Inr PNone"
    by (cases "dict_get r ''score''") (simp_all add: update_score_def)
qed

text \<open>The witness: \<^verbatim>\<open>scaled = 0.85\<close>, the double \<open>7656119366529843 * 2 ^ -53\<close>, gives 85 in
  both derivations; the integer 1 gives 100; a string, and a score that is no dict, give
  none.\<close>

theorem C8_score_of_scaled_witness:
  "fallback_score (scaled_result (PFloat (Fin 7656119366529843 (-53)))) = Inr (PInt 85) \<and>
   update_score (scaled_result (PFloat (Fin 7656119366529843 (-53)))) = Inr (PInt 85) \<and>
   product_rounded 5981343255101440 (-46) 7656119366529843 (-53) \<and>
   value_rounds_to 85 5981343255101440 (-46) \<and>
   update_score (scaled_result (PInt 1)) = Inr (PInt 100) \<and>
   update_score (scaled_result (PStr ''0.85'')) = Inr PNone \<and>
   update_score (PDict [(''score'', PInt 85)]) = Inr PNone"
proof -
  have u: "update_score (scaled_result (PFloat (Fin 7656119366529843 (-53)))) = Inr (PInt 85)"
    by (simp add: update_score_def scaled_result_def dict_get_def dict_get_default_def float_defs)
  have h: "dict_get [(''score'', PDict [(''scaled'', v)])] ''score'' = PDict [(''scaled'', v)]"
    and g: "dict_get [(''scaled'', v)] ''scaled'' = v"
    and k: "\<forall>sc'. dict_get [(''score'', PInt 85)] ''score'' \<noteq> PDict sc'" for v
    by (simp_all add: dict_get_def dict_get_default_def)
  from C8_score_of_scaled [where r = "[(''score'', PDict [(''scaled'', PFloat (Fin 7656119366529843 (-53)))])]"
      and sc = "[(''scaled'', PFloat (Fin 7656119366529843 (-53)))]"
      and result = "scaled_result (PFloat (Fin 7656119366529843 (-53)))"
      and m = 7656119366529843 and e = "-53" and q = 5981343255101440 and e' = "-46"]
    C8_score_of_scaled [where r = "[(''score'', PDict [(''scaled'', PInt 1)])]"
      and sc = "[(''scaled'', PInt 1)]" and n = 1]
    C8_score_of_scaled [where r = "[(''score'', PDict [(''scaled'', PStr ''0.85'')])]"
      and sc = "[(''scaled'', PStr ''0.85'')]"]
    C8_score_of_scaled [where r = "[(''score'', PInt 85)]"]
    h g k scaled_085_product u
  show ?thesis
    unfolding scaled_result_def by auto
qed

text \<open>The claim as it stands, with the product and the rounding read on exact values,
  fails at \<^verbatim>\<open>scaled = 0.005\<close>, the double \<open>5764607523034235 * 2 ^ -60\<close> just above
  it: the float product is \<^verbatim>\<open>0.5\<close> and both derivations give 0, while the integer
  nearest to 100 times that double is 1, not 0.\<close>

theorem C8_exact_rounding_counterexample:
  "update_score (scaled_result (PFloat (Fin 5764607523034235 (-60)))) = Inr (PInt 0) \<and>
   fallback_score (scaled_result (PFloat (Fin 5764607523034235 (-60)))) = Inr (PInt 0) \<and>
   spec_nearest_integer 1 (5764607523034235 * 100) (-60) \<and>
   \<not> spec_nearest_integer 0 (5764607523034235 * 100) (-60)"
  by (simp add: fallback_score_eq update_score_def scaled_result_def dict_get_def
        dict_get_default_def float_defs spec_nearest_integer_def)

end
